theory Spec2Isabelle
  imports Main "HOL-Library.Word" "HOL-Library.Sublist"
begin

section \<open>JavaScript values\<close>

text \<open>
  A JavaScript string is a sequence of UTF-16 code units; \<open>length\<close> counts code units,
  as \<open>String.prototype.length\<close> does. ASCII literals are written through \<open>js\<close>.
\<close>

type_synonym jsstring = "16 word list"

definition js :: "string \<Rightarrow> jsstring" where
  "js s = map of_char s"

text \<open>
  Values that arrive in an argument bag or a response body: what \<open>JSON.parse\<close> produces.
  Numbers are the integral ones; a property that is absent (\<open>undefined\<close>) is \<open>None\<close> of a lookup.
\<close>

datatype json =
    JNull
  | JBool bool
  | JNumber int
  | JString jsstring
  | JArray "json list"
  | JObject "(jsstring \<times> json) list"

type_synonym args = "jsstring \<rightharpoonup> json"

text \<open>
  What a \<open>throw\<close> or a rejection carries. \<open>ErrorObject m\<close> is an \<open>Error\<close> whose \<open>message\<close>
  is the string \<open>m\<close>. \<open>NonError s\<close> is any other value for which \<open>String(error)\<close> gives \<open>s\<close>.
  \<open>Unprintable e\<close> is a value that has no string: an object without a prototype, an object
  whose \<open>toString\<close> throws, an \<open>Error\<close> whose \<open>message\<close> is a symbol; converting it throws \<open>e\<close>.
\<close>

datatype thrown = ErrorObject jsstring | NonError jsstring | Unprintable thrown

text \<open>
  \<open>`${error instanceof Error ? error.message : String(error)}`\<close>: the string (\<open>Inr\<close>), or what
  the conversion throws (\<open>Inl\<close>).
\<close>

fun error_text :: "thrown \<Rightarrow> thrown + jsstring" where
  "error_text (ErrorObject message) = Inr message"
| "error_text (NonError str) = Inr str"
| "error_text (Unprintable e) = Inl e"

text \<open>
  A promise, looked at once the event loop has run: fulfilled, rejected, or never settled.
  A function call either throws synchronously or returns a promise.
\<close>

datatype 'a promise = Resolved 'a | Rejected thrown | Pending

datatype 'a invocation = Throws thrown | Returns "'a promise"

section \<open>Tool descriptors, handlers and results\<close>

datatype content_block = TextContent jsstring | OtherContent json

record call_tool_result =
  content :: "content_block list"
  isError :: "bool option"

record tool =
  name :: jsstring
  description :: jsstring
  inputSchema :: json

text \<open>
  \<open>interface ToolHandler { tool; handler }\<close>. The handler reads the world it runs in
  (clock, network, built-in library) through the parameter \<open>'w\<close>.
\<close>

record 'w tool_handler =
  tool :: tool
  handler :: "'w \<Rightarrow> args \<Rightarrow> call_tool_result invocation"

text \<open>\<open>createTextResponse(text, isError = false)\<close>\<close>

definition createTextResponse :: "jsstring \<Rightarrow> bool \<Rightarrow> call_tool_result" where
  "createTextResponse text isErr = \<lparr>content = [TextContent text], isError = Some isErr\<rparr>"

section \<open>The tool registry\<close>

text \<open>
  \<open>Map<string, ToolHandler>\<close>: an insertion-ordered map. \<open>set\<close> on a key that is present
  replaces the value where the key stands; on a new key it appends.
\<close>

type_synonym 'w registry = "(jsstring \<times> 'w tool_handler) list"

fun map_set :: "('k \<times> 'v) list \<Rightarrow> 'k \<Rightarrow> 'v \<Rightarrow> ('k \<times> 'v) list" where
  "map_set [] k v = [(k, v)]"
| "map_set ((k', v') # m) k v = (if k' = k then (k, v) # m else (k', v') # map_set m k v)"

fun map_get :: "('k \<times> 'v) list \<Rightarrow> 'k \<Rightarrow> 'v option" where
  "map_get [] k = None"
| "map_get ((k', v') # m) k = (if k' = k then Some v' else map_get m k)"

definition map_keys :: "('k \<times> 'v) list \<Rightarrow> 'k list" where
  "map_keys m = map fst m"

definition map_values :: "('k \<times> 'v) list \<Rightarrow> 'v list" where
  "map_values m = map snd m"

definition new_registry :: "'w registry" where
  "new_registry = []"

definition register :: "'w registry \<Rightarrow> 'w tool_handler \<Rightarrow> 'w registry" where
  "register tools toolHandler = map_set tools (name (tool toolHandler)) toolHandler"

fun registerAll :: "'w registry \<Rightarrow> 'w tool_handler list \<Rightarrow> 'w registry" where
  "registerAll tools [] = tools"
| "registerAll tools (h # toolHandlers) = registerAll (register tools h) toolHandlers"

definition getTools :: "'w registry \<Rightarrow> tool list" where
  "getTools tools = map tool (map_values tools)"

text \<open>The two message prefixes of \<open>handleToolCall\<close>: "unknown tool: " and "tool execution error: ".\<close>

definition msg_unknown_tool :: jsstring where
  "msg_unknown_tool = [0x672A, 0x77E5, 0x5DE5, 0x5177] @ js '': ''"

definition msg_tool_error :: jsstring where
  "msg_tool_error = [0x5DE5, 0x5177, 0x6267, 0x884C, 0x9519, 0x8BEF] @ js '': ''"

text \<open>
  The \<open>catch\<close> block of \<open>handleToolCall\<close>. Nothing guards the conversion of the caught
  value: when it throws, the promise of \<open>handleToolCall\<close> is rejected with what it throws.
\<close>

definition caught :: "thrown \<Rightarrow> call_tool_result promise" where
  "caught e =
     (case error_text e of
        Inr message \<Rightarrow> Resolved (createTextResponse (msg_tool_error @ message) True)
      | Inl e' \<Rightarrow> Rejected e')"

text \<open>
  \<open>async handleToolCall(name, args)\<close>: an async function never throws to its caller, it
  returns a promise. \<open>return await handler(args)\<close> inside \<open>try\<close> catches a synchronous throw
  and a rejection alike; a handler promise that never settles leaves the call pending.
\<close>

definition handleToolCall ::
  "'w registry \<Rightarrow> 'w \<Rightarrow> jsstring \<Rightarrow> args \<Rightarrow> call_tool_result promise" where
  "handleToolCall tools w nm as =
     (case map_get tools nm of
        None \<Rightarrow> Resolved (createTextResponse (msg_unknown_tool @ nm) True)
      | Some toolHandler \<Rightarrow>
          (case handler toolHandler w as of
             Returns (Resolved r) \<Rightarrow> Resolved r
           | Returns Pending \<Rightarrow> Pending
           | Returns (Rejected e) \<Rightarrow> caught e
           | Throws e \<Rightarrow> caught e))"

text \<open>\<open>t.includes(s)\<close>: \<open>s\<close> occurs in \<open>t\<close> as a contiguous run.\<close>

fun contains :: "'a list \<Rightarrow> 'a list \<Rightarrow> bool" where
  "contains [] s = (s = [])"
| "contains (c # t) s = (prefix s (c # t) \<or> contains t s)"


text \<open>Every entry of a registry stands under the name of its own descriptor.\<close>

definition keyed_by_name :: "'w registry \<Rightarrow> bool" where
  "keyed_by_name tools = list_all (\<lambda>(k, th). k = name (tool th)) tools"

section \<open>Requests against a registry\<close>

text \<open>
  The registry object is driven by method calls: \<open>register\<close> and \<open>registerAll\<close> write the
  private map, \<open>getTools\<close> and \<open>handleToolCall\<close> only read it. \<open>invoke\<close> performs one call
  and returns the reply with the registry as the call leaves it; \<open>run\<close> performs a sequence.
\<close>

datatype 'w request =
    Register "'w tool_handler"
  | RegisterAll "'w tool_handler list"
  | GetTools
  | HandleToolCall 'w jsstring args

datatype reply = Void | Tools "tool list" | CallResult "call_tool_result promise"

fun invoke :: "'w registry \<Rightarrow> 'w request \<Rightarrow> reply \<times> 'w registry" where
  "invoke tools (Register th) = (Void, register tools th)"
| "invoke tools (RegisterAll ths) = (Void, registerAll tools ths)"
| "invoke tools GetTools = (Tools (getTools tools), tools)"
| "invoke tools (HandleToolCall w nm as) = (CallResult (handleToolCall tools w nm as), tools)"

fun run :: "'w registry \<Rightarrow> 'w request list \<Rightarrow> reply list \<times> 'w registry" where
  "run tools [] = ([], tools)"
| "run tools (rq # rqs) =
     (case invoke tools rq of (rp, tools') \<Rightarrow>
        (case run tools' rqs of (rps, tools'') \<Rightarrow> (rp # rps, tools'')))"

text \<open>The names a request registers, in the order \<open>register\<close> sees them.\<close>

fun registered_names :: "'w request \<Rightarrow> jsstring list" where
  "registered_names (Register th) = [name (tool th)]"
| "registered_names (RegisterAll ths) = map (\<lambda>th. name (tool th)) ths"
| "registered_names GetTools = []"
| "registered_names (HandleToolCall w nm as) = []"

definition is_registration :: "'w request \<Rightarrow> bool" where
  "is_registration rq = (case rq of Register th \<Rightarrow> True | RegisterAll ths \<Rightarrow> True | _ \<Rightarrow> False)"

text \<open>A list without repetitions, each element kept where it first occurs.\<close>

fun first_occurrences :: "'a list \<Rightarrow> 'a list \<Rightarrow> 'a list" where
  "first_occurrences seen [] = []"
| "first_occurrences seen (x # xs) =
     (if x \<in> set seen then first_occurrences seen xs else x # first_occurrences (x # seen) xs)"


section \<open>The built-in library the handlers call\<close>

text \<open>
  What a handler takes from outside this repository: the clock, the time zone, the network
  and those built-in conversions whose result the handlers only pass on. One \<open>world\<close> is the
  state of all of it while one call runs.
\<close>

text \<open>
  A promise of the platform (\<open>fetch\<close>, \<open>Response.json\<close>): fulfilled, rejected, or never
  settled. The platform rejects with an \<open>Error\<close> object (a \<open>TypeError\<close>, a \<open>SyntaxError\<close>, a
  \<open>DOMException\<close>), kept as its message.
\<close>

datatype 'a platform_promise = Fulfilled 'a | Failed jsstring | Unsettled

record fetch_response =
  ok :: bool
  status :: int
  json_body :: "json platform_promise"

text \<open>
  A conversion of the built-in library that may throw returns a sum: \<open>Inl\<close> the message of
  the \<open>TypeError\<close> it throws, \<open>Inr\<close> its result. An object that \<open>JSON.parse\<close> has built throws
  when it is converted to a primitive if it has a property \<open>toString\<close> or \<open>valueOf\<close> of its
  own.
\<close>

record world =
  date_now :: int
  local_tza :: "int \<Rightarrow> int"
  date_of_value :: "json \<Rightarrow> jsstring + int option"
  to_string :: "json \<Rightarrow> jsstring + jsstring"
  json_stringify :: "json \<Rightarrow> jsstring"
  not_a_string_error :: "json option \<Rightarrow> jsstring"
  in_operator_error :: "json \<Rightarrow> jsstring"
  search_params_string :: "(jsstring \<times> jsstring) list \<Rightarrow> jsstring"
  uri_error_message :: jsstring
  fetch :: "jsstring \<Rightarrow> fetch_response platform_promise"

text \<open>
  \<open>date_now\<close>: \<open>Date.now()\<close>, milliseconds since the epoch.
  \<open>local_tza t\<close>: the offset of local time from UTC at \<open>t\<close>, in milliseconds.
  \<open>date_of_value v\<close>: the time value of \<open>new Date(v)\<close> for a \<open>v\<close> that is not a number,
  \<open>None\<close> for \<open>NaN\<close>.
  \<open>to_string v\<close>: \<open>String(v)\<close> for the values \<open>ToString\<close> below does not compute.
  \<open>json_stringify v\<close>: \<open>JSON.stringify(v, null, 2)\<close>.
  \<open>not_a_string_error v\<close>: the message of the \<open>TypeError\<close> of \<open>v.replace(...)\<close> for a \<open>v\<close>
  that is not a string.
  \<open>in_operator_error v\<close>: the message of the \<open>TypeError\<close> of \<open>"error" in v\<close> for a primitive \<open>v\<close>.
  \<open>search_params_string\<close>: \<open>URLSearchParams.prototype.toString\<close>.
  \<open>uri_error_message\<close>: the message of the \<open>URIError\<close> of \<open>encodeURIComponent\<close>.
\<close>

subsection \<open>Truthiness, typeof, numbers as strings\<close>

fun truthy :: "json \<Rightarrow> bool" where
  "truthy JNull = False"
| "truthy (JBool b) = b"
| "truthy (JNumber n) = (n \<noteq> 0)"
| "truthy (JString s) = (s \<noteq> [])"
| "truthy (JArray xs) = True"
| "truthy (JObject ps) = True"

fun typeof :: "json option \<Rightarrow> jsstring" where
  "typeof None = js ''undefined''"
| "typeof (Some JNull) = js ''object''"
| "typeof (Some (JBool b)) = js ''boolean''"
| "typeof (Some (JNumber n)) = js ''number''"
| "typeof (Some (JString s)) = js ''string''"
| "typeof (Some (JArray xs)) = js ''object''"
| "typeof (Some (JObject ps)) = js ''object''"

fun digits :: "nat \<Rightarrow> jsstring" where
  "digits n = (if n < 10 then [0x30 + of_nat n] else digits (n div 10) @ [0x30 + of_nat (n mod 10)])"

text \<open>\<open>Number.prototype.toString\<close> on an integer: decimal digits, a minus sign when negative.\<close>

definition number_string :: "int \<Rightarrow> jsstring" where
  "number_string i = (if i < 0 then 0x2D # digits (nat (- i)) else digits (nat i))"

text \<open>
  \<open>String(v)\<close>, as a template literal applies it. An integer up to \<open>2^53\<close> in size prints
  as its decimal digits; larger numbers, arrays and objects are left to the built-in.
\<close>

fun ToString :: "world \<Rightarrow> json \<Rightarrow> jsstring + jsstring" where
  "ToString w JNull = Inr (js ''null'')"
| "ToString w (JBool b) = Inr (if b then js ''true'' else js ''false'')"
| "ToString w (JNumber n) =
     (if \<bar>n\<bar> \<le> 9007199254740992 then Inr (number_string n) else to_string w (JNumber n))"
| "ToString w (JString s) = Inr s"
| "ToString w (JArray xs) = to_string w (JArray xs)"
| "ToString w (JObject ps) = to_string w (JObject ps)"

text \<open>\<open>s.padStart(n, c)\<close> with a one-character filler.\<close>

definition padStart :: "nat \<Rightarrow> 16 word \<Rightarrow> jsstring \<Rightarrow> jsstring" where
  "padStart n c s = replicate (n - length s) c @ s"

subsection \<open>Calendar fields of a time value\<close>

text \<open>
  The \<open>Date\<close> getters, after the definitions of the language standard: a time value is a
  number of milliseconds since 1970-01-01T00:00:00Z, days have 86400000 of them, and the
  getters read the fields of local time \<open>t + local_tza t\<close>.
\<close>

definition msPerDay :: int where
  "msPerDay = 86400000"

definition Day :: "int \<Rightarrow> int" where
  "Day t = t div msPerDay"

definition TimeWithinDay :: "int \<Rightarrow> int" where
  "TimeWithinDay t = t mod msPerDay"

definition DaysInYear :: "int \<Rightarrow> int" where
  "DaysInYear y = (if y mod 4 \<noteq> 0 then 365 else if y mod 100 \<noteq> 0 then 366
                   else if y mod 400 \<noteq> 0 then 365 else 366)"

definition DayFromYear :: "int \<Rightarrow> int" where
  "DayFromYear y = 365 * (y - 1970) + (y - 1969) div 4 - (y - 1901) div 100 + (y - 1601) div 400"

text \<open>
  The year a day number falls in, counted in cycles of 400, 100, 4 and 1 years from
  1601-01-01, which is day \<open>-134774\<close>.
\<close>

definition YearFromDay :: "int \<Rightarrow> int" where
  "YearFromDay d =
     (let n = d + 134774;
          q400 = n div 146097; r400 = n mod 146097;
          q100 = min 3 (r400 div 36524); r100 = r400 - q100 * 36524;
          q4 = r100 div 1461; r4 = r100 mod 1461;
          q1 = min 3 (r4 div 365)
      in 1601 + 400 * q400 + 100 * q100 + 4 * q4 + q1)"

definition YearFromTime :: "int \<Rightarrow> int" where
  "YearFromTime t = YearFromDay (Day t)"

definition DayWithinYear :: "int \<Rightarrow> int" where
  "DayWithinYear t = Day t - DayFromYear (YearFromTime t)"

definition InLeapYear :: "int \<Rightarrow> int" where
  "InLeapYear t = (if DaysInYear (YearFromTime t) = 366 then 1 else 0)"

definition MonthFromTime :: "int \<Rightarrow> int" where
  "MonthFromTime t =
     (let d = DayWithinYear t; l = InLeapYear t in
      if d < 31 then 0 else if d < 59 + l then 1 else if d < 90 + l then 2
      else if d < 120 + l then 3 else if d < 151 + l then 4 else if d < 181 + l then 5
      else if d < 212 + l then 6 else if d < 243 + l then 7 else if d < 273 + l then 8
      else if d < 304 + l then 9 else if d < 334 + l then 10 else 11)"

definition DateFromTime :: "int \<Rightarrow> int" where
  "DateFromTime t =
     (let d = DayWithinYear t; l = InLeapYear t; m = MonthFromTime t in
      if m = 0 then d + 1 else if m = 1 then d - 30 else if m = 2 then d - 58 - l
      else if m = 3 then d - 89 - l else if m = 4 then d - 119 - l
      else if m = 5 then d - 150 - l else if m = 6 then d - 180 - l
      else if m = 7 then d - 211 - l else if m = 8 then d - 242 - l
      else if m = 9 then d - 272 - l else if m = 10 then d - 303 - l else d - 333 - l)"

definition HourFromTime :: "int \<Rightarrow> int" where
  "HourFromTime t = (t div 3600000) mod 24"

definition MinFromTime :: "int \<Rightarrow> int" where
  "MinFromTime t = (t div 60000) mod 60"

definition SecFromTime :: "int \<Rightarrow> int" where
  "SecFromTime t = (t div 1000) mod 60"

definition LocalTime :: "world \<Rightarrow> int \<Rightarrow> int" where
  "LocalTime w t = t + local_tza w t"

text \<open>
  \<open>new Date(v).getTime()\<close>, \<open>None\<close> for \<open>NaN\<close>: a number is a time value when it is at most
  \<open>8.64e15\<close> in size.
\<close>

fun time_value :: "world \<Rightarrow> json \<Rightarrow> jsstring + int option" where
  "time_value w (JNumber n) = Inr (if \<bar>n\<bar> \<le> 8640000000000000 then Some n else None)"
| "time_value w v = date_of_value w v"

section \<open>The handler of formatDateTime\<close>

text \<open>
  \<open>s.replace(new RegExp(token, 'g'), value)\<close> for a token of plain letters and a value
  without \<open>$\<close>: every occurrence of \<open>token\<close>, found from left to right without overlap, is
  replaced by \<open>value\<close>.
\<close>

function replace_all :: "'a list \<Rightarrow> 'a list \<Rightarrow> 'a list \<Rightarrow> 'a list" where
  "replace_all token v [] = []"
| "replace_all token v (c # s) =
     (if token \<noteq> [] \<and> prefix token (c # s)
      then v @ replace_all token v (drop (length token) (c # s))
      else c # replace_all token v s)"
  by pat_completeness auto
termination
  by (relation "measure (\<lambda>(token, v, s). length s)") auto

text \<open>\<open>formatMap\<close>, as \<open>Object.entries\<close> lists it: the order the keys are written in.\<close>

definition formatMap :: "world \<Rightarrow> int \<Rightarrow> (jsstring \<times> jsstring) list" where
  "formatMap w t =
     (let lt = LocalTime w t in
      [(js ''YYYY'', number_string (YearFromTime lt)),
       (js ''MM'', padStart 2 0x30 (number_string (MonthFromTime lt + 1))),
       (js ''DD'', padStart 2 0x30 (number_string (DateFromTime lt))),
       (js ''HH'', padStart 2 0x30 (number_string (HourFromTime lt))),
       (js ''mm'', padStart 2 0x30 (number_string (MinFromTime lt))),
       (js ''ss'', padStart 2 0x30 (number_string (SecFromTime lt)))])"

fun replace_tokens :: "(jsstring \<times> jsstring) list \<Rightarrow> jsstring \<Rightarrow> jsstring" where
  "replace_tokens [] result = result"
| "replace_tokens ((token, v) # entries) result = replace_tokens entries (replace_all token v result)"

text \<open>The message prefixes: "invalid timestamp: " and "date formatting error: ".\<close>

definition msg_invalid_timestamp :: jsstring where
  "msg_invalid_timestamp = [0x65E0, 0x6548, 0x7684, 0x65F6, 0x95F4, 0x6233] @ js '': ''"

definition msg_format_error :: jsstring where
  "msg_format_error = [0x65E5, 0x671F, 0x683C, 0x5F0F, 0x5316, 0x9519, 0x8BEF] @ js '': ''"

text \<open>\<open>args.timestamp as number || Date.now()\<close>\<close>

definition timestamp_or_now :: "world \<Rightarrow> args \<Rightarrow> json" where
  "timestamp_or_now w as =
     (case as (js ''timestamp'') of
        None \<Rightarrow> JNumber (date_now w)
      | Some v \<Rightarrow> if truthy v then v else JNumber (date_now w))"

text \<open>The handler's \<open>catch\<close>, for the \<open>TypeError\<close> with the given message.\<close>

definition format_caught :: "jsstring \<Rightarrow> call_tool_result" where
  "format_caught message = createTextResponse (msg_format_error @ message) True"

text \<open>
  The \<open>try\<close> block, for the \<open>format\<close> and \<open>timestamp\<close> the two first lines have read. A
  \<open>format\<close> that is not a string has no \<open>replace\<close> to call, and a \<open>timestamp\<close> may be an
  object that cannot be converted: each \<open>TypeError\<close> is caught by the handler's own \<open>catch\<close>.
\<close>

definition format_timestamp :: "world \<Rightarrow> json option \<Rightarrow> json \<Rightarrow> call_tool_result" where
  "format_timestamp w format timestamp =
     (case time_value w timestamp of
        Inl message \<Rightarrow> format_caught message
      | Inr None \<Rightarrow>
          (case ToString w timestamp of
             Inl message \<Rightarrow> format_caught message
           | Inr str \<Rightarrow> createTextResponse (msg_invalid_timestamp @ str) True)
      | Inr (Some t) \<Rightarrow>
          (case format of
             Some (JString f) \<Rightarrow> createTextResponse (replace_tokens (formatMap w t) f) False
           | _ \<Rightarrow> format_caught (not_a_string_error w format)))"

definition formatDateTime_handler :: "world \<Rightarrow> args \<Rightarrow> call_tool_result invocation" where
  "formatDateTime_handler w as =
     Returns (Resolved (format_timestamp w (as (js ''format'')) (timestamp_or_now w as)))"

section \<open>The handler of textStats\<close>

text \<open>
  What \<open>\s\<close> matches and \<open>trim\<close> strips: the white space and line terminator code units.
\<close>

definition is_space :: "16 word \<Rightarrow> bool" where
  "is_space c =
     (c = 0x09 \<or> c = 0x0A \<or> c = 0x0B \<or> c = 0x0C \<or> c = 0x0D \<or> c = 0x20 \<or> c = 0xA0
      \<or> c = 0x1680 \<or> (0x2000 \<le> c \<and> c \<le> 0x200A) \<or> c = 0x2028 \<or> c = 0x2029
      \<or> c = 0x202F \<or> c = 0x205F \<or> c = 0x3000 \<or> c = 0xFEFF)"

definition trim :: "jsstring \<Rightarrow> jsstring" where
  "trim s = rev (dropWhile is_space (rev (dropWhile is_space s)))"

text \<open>
  \<open>s.split(/\s+/)\<close>: the pieces between the maximal runs of white space; \<open>cur\<close> is the
  piece being read, latest code unit first. A string that starts or ends with white space
  has an empty first or last piece.
\<close>

function split_spaces :: "jsstring \<Rightarrow> jsstring \<Rightarrow> jsstring list" where
  "split_spaces cur [] = [rev cur]"
| "split_spaces cur (c # s) =
     (if is_space c then rev cur # split_spaces [] (dropWhile is_space s)
      else split_spaces (c # cur) s)"
  by pat_completeness auto
termination
  by (relation "measure (\<lambda>(cur, s). length s)") (auto simp: length_dropWhile_le less_Suc_eq_le)

text \<open>
  \<open>s.split(/\r\n|\r|\n/)\<close>: a carriage return followed by a line feed is one separator,
  either of them alone is one too.
\<close>

fun split_lines :: "jsstring \<Rightarrow> jsstring \<Rightarrow> jsstring list" where
  "split_lines cur [] = [rev cur]"
| "split_lines cur (c # s) =
     (if c = 0x0D then
        (case s of
           [] \<Rightarrow> rev cur # split_lines [] []
         | d # s' \<Rightarrow> if d = 0x0A then rev cur # split_lines [] s' else rev cur # split_lines [] (d # s'))
      else if c = 0x0A then rev cur # split_lines [] s
      else split_lines (c # cur) s)"

definition charCount :: "jsstring \<Rightarrow> nat" where
  "charCount text = length text"

definition wordCount :: "jsstring \<Rightarrow> nat" where
  "wordCount text = (if trim text \<noteq> [] then length (split_spaces [] (trim text)) else 0)"

definition lineCount :: "jsstring \<Rightarrow> nat" where
  "lineCount text = length (split_lines [] text)"

text \<open>
  \<open>for (const char of text)\<close> walks code points: a high surrogate followed by a low one is
  one character of two code units.
\<close>

fun code_points :: "jsstring \<Rightarrow> jsstring list" where
  "code_points [] = []"
| "code_points [c] = [[c]]"
| "code_points (c # d # s) =
     (if 0xD800 \<le> c \<and> c \<le> 0xDBFF \<and> 0xDC00 \<le> d \<and> d \<le> 0xDFFF
      then [c, d] # code_points s else [c] # code_points (d # s))"

text \<open>\<open>charFrequency[char] = (charFrequency[char] || 0) + 1\<close>, the keys in the order they are added.\<close>

fun charFrequency :: "(jsstring \<times> nat) list \<Rightarrow> jsstring list \<Rightarrow> (jsstring \<times> nat) list" where
  "charFrequency freq [] = freq"
| "charFrequency freq (char # chars) =
     charFrequency (map_set freq char (case map_get freq char of None \<Rightarrow> 1 | Some n \<Rightarrow> n + 1)) chars"

text \<open>
  \<open>Object.entries\<close> of an object whose keys are single characters: the keys that are array
  indices, here the digits, come first in ascending order, the others follow in the order
  they were added.
\<close>

definition is_digit_key :: "jsstring \<Rightarrow> bool" where
  "is_digit_key k = (case k of [c] \<Rightarrow> 0x30 \<le> c \<and> c \<le> 0x39 | _ \<Rightarrow> False)"

definition object_entries :: "(jsstring \<times> nat) list \<Rightarrow> (jsstring \<times> nat) list" where
  "object_entries freq =
     sort_key (\<lambda>(k, n). unat (hd k)) (filter (\<lambda>(k, n). is_digit_key k) freq)
     @ filter (\<lambda>(k, n). \<not> is_digit_key k) freq"

text \<open>The names shown for a space, a line feed and a tab.\<close>

definition char_label :: "jsstring \<Rightarrow> jsstring" where
  "char_label char =
     (if char = [0x20] then [0x7A7A, 0x683C]
      else if char = [0x0A] then [0x6362, 0x884C]
      else if char = [0x09] then [0x5236, 0x8868, 0x7B26]
      else char)"

fun join :: "'a list \<Rightarrow> 'a list list \<Rightarrow> 'a list" where
  "join sep [] = []"
| "join sep [x] = x"
| "join sep (x # y # xs) = x @ sep @ join sep (y # xs)"

text \<open>
  The ten most frequent characters: a stable sort by descending count, the first ten,
  each written as \<open>"label": count\<close>, joined by a comma and a space.
\<close>

definition topChars :: "jsstring \<Rightarrow> jsstring" where
  "topChars text =
     join (js '', '')
       (map (\<lambda>(char, n). [0x22] @ char_label char @ [0x22] @ js '': '' @ number_string (int n))
          (take 10
             (sort_key (\<lambda>(char, n). - int n)
                (object_entries (charFrequency [] (code_points text))))))"

text \<open>
  The object that is serialised: character count, word count, line count and the common
  characters, under the keys the source gives them.
\<close>

definition key_characters :: jsstring where
  "key_characters = [0x5B57, 0x7B26, 0x6570]"

definition key_words :: jsstring where
  "key_words = [0x5355, 0x8BCD, 0x6570]"

definition key_lines :: jsstring where
  "key_lines = [0x884C, 0x6570]"

definition key_common :: jsstring where
  "key_common = [0x5E38, 0x89C1, 0x5B57, 0x7B26]"

definition textStats_result :: "jsstring \<Rightarrow> json" where
  "textStats_result text =
     JObject
       [(key_characters, JNumber (int (charCount text))),
        (key_words, JNumber (int (wordCount text))),
        (key_lines, JNumber (int (lineCount text))),
        (key_common, JString (topChars text))]"

text \<open>The message prefix: "the input should be a string, but received ".\<close>

definition msg_not_a_string :: jsstring where
  "msg_not_a_string =
     [0x8F93, 0x5165, 0x5E94, 0x4E3A, 0x5B57, 0x7B26, 0x4E32, 0xFF0C, 0x4F46, 0x6536, 0x5230, 0x4E86,
      0x20]"

definition textStats_handler :: "world \<Rightarrow> args \<Rightarrow> call_tool_result invocation" where
  "textStats_handler w as =
     (case as (js ''text'') of
        Some (JString text) \<Rightarrow>
          Returns (Resolved (createTextResponse (json_stringify w (textStats_result text)) False))
      | other \<Rightarrow>
          Returns (Resolved (createTextResponse (msg_not_a_string @ typeof other) True)))"

section \<open>The tools of main.ts\<close>

text \<open>The descriptions read "format a date and time" and "analyse a text and return statistics".\<close>

definition formatDateTime_tool :: tool where
  "formatDateTime_tool =
     \<lparr>name = js ''formatDateTime'',
      description = [0x683C, 0x5F0F, 0x5316, 0x65E5, 0x671F, 0x65F6, 0x95F4],
      inputSchema = JObject
        [(js ''type'', JString (js ''object'')),
         (js ''properties'', JObject
            [(js ''format'', JObject
                [(js ''type'', JString (js ''string'')),
                 (js ''description'', JString
                    ([0x683C, 0x5F0F, 0x5B57, 0x7B26, 0x4E32, 0xFF0C, 0x4F8B, 0x5982]
                     @ [0x20, 0x27] @ js ''YYYY-MM-DD HH:mm:ss'' @ [0x27, 0x3002, 0x652F, 0x6301, 0x7684, 0x6807, 0x8BB0]
                     @ js '': YYYY('' @ [0x5E74] @ js ''), MM('' @ [0x6708] @ js ''), DD('' @ [0x65E5]
                     @ js ''), HH('' @ [0x65F6] @ js ''), mm('' @ [0x5206] @ js ''), ss('' @ [0x79D2]
                     @ js '')''))]),
             (js ''timestamp'', JObject
                [(js ''type'', JString (js ''number'')),
                 (js ''description'', JString
                    ([0x53EF, 0x9009, 0x7684, 0x65F6, 0x95F4, 0x6233, 0xFF08, 0x6BEB, 0x79D2, 0xFF09, 0x3002,
                      0x9ED8, 0x8BA4, 0x4E3A, 0x5F53, 0x524D, 0x65F6, 0x95F4]))])]),
         (js ''required'', JArray [JString (js ''format'')])]\<rparr>"

definition textStats_tool :: tool where
  "textStats_tool =
     \<lparr>name = js ''textStats'',
      description = [0x5206, 0x6790, 0x6587, 0x672C, 0x5E76, 0x8FD4, 0x56DE, 0x7EDF, 0x8BA1, 0x4FE1, 0x606F],
      inputSchema = JObject
        [(js ''type'', JString (js ''object'')),
         (js ''properties'', JObject
            [(js ''text'', JObject
                [(js ''type'', JString (js ''string'')),
                 (js ''description'', JString [0x8981, 0x5206, 0x6790, 0x7684, 0x6587, 0x672C])])]),
         (js ''required'', JArray [JString (js ''text'')])]\<rparr>"

definition TOOLS :: "world tool_handler list" where
  "TOOLS =
     [\<lparr>tool = formatDateTime_tool, handler = formatDateTime_handler\<rparr>,
      \<lparr>tool = textStats_tool, handler = textStats_handler\<rparr>]"

text \<open>\<open>createServer\<close>: a new registry with \<open>TOOLS\<close> registered.\<close>

definition toolRegistry :: "world registry" where
  "toolRegistry = registerAll new_registry TOOLS"

section \<open>The handlers of the session-keyed variant\<close>

text \<open>
  The second source file keeps the registry and its dispatch as they are and registers two
  other tools: \<open>fetchMetaTags\<close>, which asks a remote service, and \<open>readpoPoster\<close>, which
  builds a link.
\<close>

subsection \<open>fetchMetaTags\<close>


















subsection \<open>readpoPoster\<close>












subsection \<open>The tools\<close>

definition quoted :: "string \<Rightarrow> jsstring" where
  "quoted s = [0x22] @ js s @ [0x22]"

definition fetchMetaTags_tool :: tool where
  "fetchMetaTags_tool =
     \<lparr>name = js ''fetchMetaTags'',
      description =
        [0x83B7, 0x53D6, 0x6307, 0x5B9A, 0x7F51, 0x9875, 0x7684, 0x5143, 0x6807, 0x7B7E] @ js ''(meta)''
        @ [0x4FE1, 0x606F, 0xFF0C, 0x5982, 0x6807, 0x9898, 0x3001, 0x63CF, 0x8FF0, 0x3001] @ js ''favicon''
        @ [0x3001] @ js ''OpenGraph'' @ [0x3001] @ js ''Twitter'' @ [0x7B49, 0x3002],
      inputSchema = JObject
        [(js ''type'', JString (js ''object'')),
         (js ''properties'', JObject
            [(js ''url'', JObject
                [(js ''type'', JString (js ''string'')),
                 (js ''description'', JString
                    ([0x8981, 0x63D0, 0x53D6, 0x5143, 0x4FE1, 0x606F, 0x7684, 0x7F51, 0x5740, 0xFF08, 0x5B8C,
                      0x6574] @ js ''URL'' @ [0xFF09, 0xFF0C, 0x5982] @ js '' https://example.com''))]),
             (js ''meta'', JObject
                [(js ''type'', JString (js ''array'')),
                 (js ''items'', JObject [(js ''type'', JString (js ''string''))]),
                 (js ''description'', JString
                    ([0xFF08, 0x53EF, 0x9009, 0xFF09, 0x8981, 0x83B7, 0x53D6, 0x7684, 0x7279, 0x5B9A, 0x5143,
                      0x6807, 0x7B7E, 0x540D, 0x6570, 0x7EC4, 0xFF0C, 0x5982] @ js '' [''
                     @ join (js '','')
                         (map quoted
                            [''language'', ''charset'', ''viewport'', ''title'', ''description'',
                             ''keywords'', ''favicon'', ''author'', ''generator'', ''theme'',
                             ''canonical'', ''ogUrl'', ''ogTitle'', ''ogSiteName'', ''ogDescription'',
                             ''ogImage'', ''ogImageAlt'', ''ogType'', ''twitterSite'', ''twitterCard'',
                             ''twitterTitle'', ''twitterCreator'', ''twitterDescription'',
                             ''twitterImage'', ''robots''])
                     @ js '','' @ [0x22] @ js ''icons]''
                     @ [0xFF0C, 0x4E0D, 0x586B, 0x5219, 0x8FD4, 0x56DE, 0x6240, 0x6709, 0x652F, 0x6301, 0x7684,
                        0x5143, 0x6807, 0x7B7E]))])]),
         (js ''required'', JArray [JString (js ''url'')])]\<rparr>"

definition readpoPoster_tool :: tool where
  "readpoPoster_tool =
     \<lparr>name = js ''readpoPoster'',
      description =
        [0x5C06, 0x4F20, 0x5165, 0x7684] @ js '' Markdown ''
        @ [0x5185, 0x5BB9, 0x6E32, 0x67D3, 0x4E3A, 0x6D77, 0x62A5, 0x56FE, 0x7247, 0xFF0C, 0x8FD4, 0x56DE,
           0x56FE, 0x7247, 0x76F4, 0x94FE, 0xFF08, 0x4F7F, 0x7528] @ js '' https://readpo.com/p/Markdown''
        @ [0x5185, 0x5BB9] @ js '' '' @ [0x4F5C, 0x4E3A, 0x56FE, 0x7247, 0x94FE, 0x63A5, 0xFF09, 0x3002],
      inputSchema = JObject
        [(js ''type'', JString (js ''object'')),
         (js ''properties'', JObject
            [(js ''markdown'', JObject
                [(js ''type'', JString (js ''string'')),
                 (js ''description'', JString
                    ([0x8981, 0x6E32, 0x67D3, 0x4E3A, 0x6D77, 0x62A5, 0x7684] @ js '' Markdown ''
                     @ [0x5185, 0x5BB9]))])]),
         (js ''required'', JArray [JString (js ''markdown'')])]\<rparr>"



section \<open>Streaming connections\<close>

text \<open>
  \<open>main\<close> wires three routes to the one \<open>server\<close> that \<open>createServer\<close> returns. Its state
  is what the route handlers share: the variable \<open>transport\<close>, the callback slot
  \<open>server.onclose\<close> and, in the session-keyed variant, the map \<open>activeTransports\<close>. The
  transport layer is outside this repository; a response stream is a value of type \<open>'ch\<close>.
\<close>

record 'ch sse_transport =
  endpoint :: jsstring
  res :: 'ch


subsection \<open>The session-keyed variant\<close>

text \<open>
  \<open>onclose\<close> holds the \<open>connectionId\<close> that the callback stored in \<open>server.onclose\<close> has
  captured, \<open>None\<close> while no callback is stored. \<open>exited\<close> records that \<open>process.exit(0)\<close>
  has been reached.
\<close>

record 'ch sessions =
  activeTransports :: "(jsstring \<times> 'ch sse_transport) list"
  transport :: "'ch sse_transport option"
  onclose :: "jsstring option"
  exited :: bool




text \<open>
  \<open>POST /message/:connectionId\<close>. \<open>handled\<close> tells whether \<open>transport.handlePostMessage\<close>
  returned without throwing.
\<close>

datatype 'ch post_outcome =
    NotFound404
  | Dispatched "'ch sse_transport"
  | InternalError500 "'ch sse_transport"

definition post_message :: "jsstring \<Rightarrow> bool \<Rightarrow> 'ch sessions \<Rightarrow> 'ch post_outcome" where
  "post_message connectionId handled s =
     (case map_get (activeTransports s) connectionId of
        None \<Rightarrow> NotFound404
      | Some t \<Rightarrow> if handled then Dispatched t else InternalError500 t)"

subsection \<open>The variant of main.ts\<close>

text \<open>
  main.ts has no identifiers and no map: \<open>GET /sse\<close> stores the new transport in the one
  variable \<open>transport\<close>, \<open>POST /message\<close> passes the message to whatever that variable
  holds. Calling a method of \<open>undefined\<close> is a \<open>TypeError\<close>, which rejects the route handler.
\<close>

definition get_sse_single :: "'ch \<Rightarrow> 'ch sse_transport option \<Rightarrow> 'ch sse_transport option" where
  "get_sse_single r t = Some \<lparr>endpoint = js ''/message'', res = r\<rparr>"

datatype 'ch single_outcome = Passed "'ch sse_transport" | RouteRejected

definition post_message_single :: "'ch sse_transport option \<Rightarrow> 'ch single_outcome" where
  "post_message_single t = (case t of None \<Rightarrow> RouteRejected | Some tr \<Rightarrow> Passed tr)"

section \<open>A world for worked examples\<close>

text \<open>
  The clock stands at 2024-01-05T00:00:00Z, local time is UTC, the network never answers,
  and the conversions that are left to the built-in library return the empty string.
\<close>

definition example_world :: world where
  "example_world =
     \<lparr>date_now = 1704412800000,
      local_tza = (\<lambda>t. 0),
      date_of_value = (\<lambda>v. Inr None),
      to_string = (\<lambda>v. Inr []),
      json_stringify = (\<lambda>v. []),
      not_a_string_error = (\<lambda>v. []),
      in_operator_error = (\<lambda>v. []),
      search_params_string = (\<lambda>ps. []),
      uri_error_message = js ''URI malformed'',
      fetch = (\<lambda>url. Unsettled)\<rparr>"

section \<open>A handler that fails with a value that has no string\<close>







section \<open>Properties of the registry\<close>

lemma contains_append_left: "contains t s \<Longrightarrow> contains (p @ t) s"
  by (induction p) auto

lemma contains_Nil: "contains t []"
  by (cases t) auto

lemma contains_self_append: "contains (s @ q) s"
  by (cases s) (auto simp: contains_Nil)

lemma contains_infix: "contains (p @ s @ q) s"
  by (rule contains_append_left [OF contains_self_append])

lemma contains_suffix: "contains (p @ s) s"
  using contains_infix [of p s "[]"] by simp

lemma contains_iff: "contains t s \<longleftrightarrow> (\<exists>pre post. t = pre @ s @ post)"
proof
  show "contains t s \<Longrightarrow> \<exists>pre post. t = pre @ s @ post"
  proof (induction t)
    case Nil
    then show ?case by simp
  next
    case (Cons c t)
    from Cons.prems have "prefix s (c # t) \<or> contains t s" by simp
    then show ?case
    proof
      assume "prefix s (c # t)"
      then obtain post where "c # t = s @ post" by (auto simp: prefix_def)
      then have "c # t = [] @ s @ post" by simp
      then show ?thesis by blast
    next
      assume "contains t s"
      with Cons.IH obtain pre post where "t = pre @ s @ post" by blast
      then have "c # t = (c # pre) @ s @ post" by simp
      then show ?thesis by blast
    qed
  qed
next
  assume "\<exists>pre post. t = pre @ s @ post"
  then show "contains t s" by (auto simp: contains_infix)
qed

lemma toolRegistry_entries:
  "toolRegistry =
     [(js ''formatDateTime'', \<lparr>tool = formatDateTime_tool, handler = formatDateTime_handler\<rparr>),
      (js ''textStats'', \<lparr>tool = textStats_tool, handler = textStats_handler\<rparr>)]"
  by (simp add: toolRegistry_def TOOLS_def new_registry_def register_def formatDateTime_tool_def
      textStats_tool_def js_def)

lemma tool_names:
  "name formatDateTime_tool = js ''formatDateTime''"
  "name textStats_tool = js ''textStats''"
  "name fetchMetaTags_tool = js ''fetchMetaTags''"
  "name readpoPoster_tool = js ''readpoPoster''"
  by (simp_all add: formatDateTime_tool_def textStats_tool_def fetchMetaTags_tool_def
      readpoPoster_tool_def)

lemma tool_names_differ:
  "js ''formatDateTime'' \<noteq> js ''textStats''"
  "js ''formatDateTime'' \<noteq> js ''fetchMetaTags''"
  "js ''formatDateTime'' \<noteq> js ''readpoPoster''"
  "js ''textStats'' \<noteq> js ''fetchMetaTags''"
  "js ''textStats'' \<noteq> js ''readpoPoster''"
  "js ''fetchMetaTags'' \<noteq> js ''readpoPoster''"
  by (simp_all add: js_def)


text \<open>
  C2. For a name with no registry entry and any argument bag, \<open>handleToolCall\<close> returns a
  fulfilled promise, so nothing is thrown or rejected. Its result has one content block,
  a text, and the error flag set; the text is the unknown-tool prefix followed by the
  requested name, so it contains the name.
\<close>

theorem unknown_tool_is_error_result:
  "map_get tools nm = None \<Longrightarrow>
     \<exists>text. handleToolCall tools w nm as
              = Resolved \<lparr>content = [TextContent text], isError = Some True\<rparr>
          \<and> text = msg_unknown_tool @ nm
          \<and> contains text nm"
  by (simp add: handleToolCall_def createTextResponse_def contains_suffix)

theorem unknown_tool_is_error_result_witness:
  "map_get toolRegistry (js ''__nonexistent__'') = None
   \<and> handleToolCall toolRegistry example_world (js ''__nonexistent__'') Map.empty
       = Resolved \<lparr>content = [TextContent (msg_unknown_tool @ js ''__nonexistent__'')],
                    isError = Some True\<rparr>
   \<and> contains (msg_unknown_tool @ js ''__nonexistent__'') (js ''__nonexistent__'')"
proof -
  have absent: "map_get toolRegistry (js ''__nonexistent__'') = None"
    by (simp add: toolRegistry_entries js_def)
  from unknown_tool_is_error_result [OF absent, of example_world Map.empty]
  obtain shown where
    call: "handleToolCall toolRegistry example_world (js ''__nonexistent__'') Map.empty
             = Resolved \<lparr>content = [TextContent shown], isError = Some True\<rparr>"
    and shown: "shown = msg_unknown_tool @ js ''__nonexistent__''"
    and found: "contains shown (js ''__nonexistent__'')"
    by blast
  show ?thesis
    using absent call found unfolding shown by (intro conjI)
qed

section \<open>Names and order in the registry\<close>

lemma map_get_map_set: "map_get (map_set m k v) k' = (if k' = k then Some v else map_get m k')"
  by (induction m) auto

lemma map_keys_map_set:
  "map_keys (map_set m k v) = (if k \<in> set (map_keys m) then map_keys m else map_keys m @ [k])"
  by (induction m) (force simp: map_keys_def)+

lemma length_map_set:
  "length (map_set m k v) = (if k \<in> set (map_keys m) then length m else Suc (length m))"
  by (induction m) (force simp: map_keys_def)+

lemma map_get_None_iff: "map_get m k = None \<longleftrightarrow> k \<notin> set (map_keys m)"
  by (induction m) (force simp: map_keys_def)+

lemma keyed_by_name_map_set:
  "keyed_by_name tools \<Longrightarrow> keyed_by_name (map_set tools (name (tool th)) th)"
  by (induction tools) (auto simp: keyed_by_name_def)

lemma keyed_by_name_register: "keyed_by_name tools \<Longrightarrow> keyed_by_name (register tools th)"
  by (simp add: register_def keyed_by_name_map_set)

lemma keyed_by_name_registerAll: "keyed_by_name tools \<Longrightarrow> keyed_by_name (registerAll tools ths)"
  by (induction ths arbitrary: tools) (auto simp: keyed_by_name_register)

lemma keyed_by_name_invoke: "keyed_by_name tools \<Longrightarrow> keyed_by_name (snd (invoke tools rq))"
  by (cases rq) (auto simp: keyed_by_name_register keyed_by_name_registerAll)

lemma snd_run_Cons: "snd (run tools (rq # rqs)) = snd (run (snd (invoke tools rq)) rqs)"
  by (simp split: prod.splits)

lemma fst_run_Cons:
  "fst (run tools (rq # rqs)) = fst (invoke tools rq) # fst (run (snd (invoke tools rq)) rqs)"
  by (simp split: prod.splits)

lemma keyed_by_name_run: "keyed_by_name tools \<Longrightarrow> keyed_by_name (snd (run tools rqs))"
proof (induction rqs arbitrary: tools)
  case Nil
  then show ?case by simp
next
  case (Cons rq rqs)
  then show ?case unfolding snd_run_Cons by (blast intro: keyed_by_name_invoke)
qed

lemma names_getTools: "keyed_by_name tools \<Longrightarrow> map name (getTools tools) = map_keys tools"
  by (induction tools) (auto simp: keyed_by_name_def getTools_def map_values_def map_keys_def)

lemma first_occurrences_cong:
  "set seen = set seen' \<Longrightarrow> first_occurrences seen xs = first_occurrences seen' xs"
proof (induction xs arbitrary: seen seen')
  case Nil
  show ?case by simp
next
  case (Cons x xs)
  have mem: "x \<in> set seen \<longleftrightarrow> x \<in> set seen'"
    using Cons.prems by simp
  have "set (x # seen) = set (x # seen')"
    using Cons.prems by simp
  then have fresh: "first_occurrences (x # seen) xs = first_occurrences (x # seen') xs"
    by (rule Cons.IH)
  have known: "first_occurrences seen xs = first_occurrences seen' xs"
    by (rule Cons.IH [OF Cons.prems])
  show ?case
    by (simp add: mem fresh known)
qed

lemma first_occurrences_append:
  "first_occurrences seen (xs @ ys) =
     first_occurrences seen xs @ first_occurrences (seen @ first_occurrences seen xs) ys"
proof (induction xs arbitrary: seen)
  case Nil
  then show ?case by simp
next
  case (Cons x xs)
  show ?case
  proof (cases "x \<in> set seen")
    case True
    then show ?thesis using Cons.IH [of seen] by simp
  next
    case False
    have "first_occurrences (seen @ x # first_occurrences (x # seen) xs) ys
          = first_occurrences ((x # seen) @ first_occurrences (x # seen) xs) ys"
      by (rule first_occurrences_cong) auto
    then show ?thesis using False Cons.IH [of "x # seen"] by simp
  qed
qed

lemma map_keys_register:
  "map_keys (register tools th) = map_keys tools @ first_occurrences (map_keys tools) [name (tool th)]"
  by (simp add: register_def map_keys_map_set)

lemma map_keys_registerAll:
  "map_keys (registerAll tools ths)
     = map_keys tools @ first_occurrences (map_keys tools) (map (\<lambda>th. name (tool th)) ths)"
proof (induction ths arbitrary: tools)
  case Nil
  then show ?case by simp
next
  case (Cons th ths)
  have "first_occurrences (map_keys tools @ [name (tool th)]) (map (\<lambda>th. name (tool th)) ths)
        = first_occurrences (name (tool th) # map_keys tools) (map (\<lambda>th. name (tool th)) ths)"
    by (rule first_occurrences_cong) auto
  then show ?case using Cons.IH [of "register tools th"]
    by (simp add: map_keys_register)
qed

lemma map_keys_invoke:
  "map_keys (snd (invoke tools rq))
     = map_keys tools @ first_occurrences (map_keys tools) (registered_names rq)"
  by (cases rq) (simp_all add: map_keys_register map_keys_registerAll)

lemma map_keys_run:
  "map_keys (snd (run tools rqs))
     = map_keys tools @ first_occurrences (map_keys tools) (concat (map registered_names rqs))"
proof (induction rqs arbitrary: tools)
  case Nil
  then show ?case by simp
next
  case (Cons rq rqs)
  show ?case
    unfolding snd_run_Cons Cons.IH map_keys_invoke
    by (simp add: first_occurrences_append)
qed

lemma set_first_occurrences: "set (first_occurrences seen xs) = set xs - set seen"
  by (induction xs arbitrary: seen) auto

lemma distinct_first_occurrences: "distinct (first_occurrences seen xs)"
  by (induction xs arbitrary: seen) (auto simp: set_first_occurrences)

lemma count_list_distinct: "distinct xs \<Longrightarrow> x \<in> set xs \<Longrightarrow> count_list xs x = 1"
  by (induction xs) auto

lemma snd_run_append: "snd (run tools (rqs @ rqs')) = snd (run (snd (run tools rqs)) rqs')"
proof (induction rqs arbitrary: tools)
  case Nil
  then show ?case by simp
next
  case (Cons rq rqs)
  show ?case using Cons.IH [of "snd (invoke tools rq)"] by (simp add: snd_run_Cons del: run.simps)
qed

lemma fst_run_append:
  "fst (run tools (rqs @ rqs')) = fst (run tools rqs) @ fst (run (snd (run tools rqs)) rqs')"
proof (induction rqs arbitrary: tools)
  case Nil
  then show ?case by simp
next
  case (Cons rq rqs)
  show ?case using Cons.IH [of "snd (invoke tools rq)"]
    by (simp add: snd_run_Cons fst_run_Cons del: run.simps)
qed

lemma invoke_reads_only: "\<not> is_registration rq \<Longrightarrow> snd (invoke tools rq) = tools"
  by (cases rq) (auto simp: is_registration_def)

lemma run_reads_only: "list_all (\<lambda>rq. \<not> is_registration rq) rqs \<Longrightarrow> snd (run tools rqs) = tools"
proof (induction rqs)
  case Nil
  then show ?case by simp
next
  case (Cons rq rqs)
  then show ?case by (simp add: snd_run_Cons invoke_reads_only del: run.simps)
qed

lemma keyed_by_name_new: "keyed_by_name new_registry"
  by (simp add: keyed_by_name_def new_registry_def)

lemma names_after_run:
  "map name (getTools (snd (run new_registry rqs)))
     = first_occurrences [] (concat (map registered_names rqs))"
proof -
  have "map name (getTools (snd (run new_registry rqs))) = map_keys (snd (run new_registry rqs))"
    by (rule names_getTools [OF keyed_by_name_run [OF keyed_by_name_new]])
  also have "\<dots> = first_occurrences [] (concat (map registered_names rqs))"
    by (simp add: map_keys_run) (simp add: new_registry_def map_keys_def)
  finally show ?thesis .
qed

lemma find_in_append:
  "find P (xs @ ys) = (case find P xs of None \<Rightarrow> find P ys | Some x \<Rightarrow> Some x)"
  by (induction xs) auto

lemma find_last_registered:
  "map_get (registerAll tools ths) nm =
     (case find (\<lambda>h. name (tool h) = nm) (rev ths) of
        Some h \<Rightarrow> Some h
      | None \<Rightarrow> map_get tools nm)"
proof (induction ths arbitrary: tools)
  case Nil
  then show ?case by simp
next
  case (Cons th ths)
  show ?case
    using Cons.IH [of "register tools th"]
    by (auto simp: find_in_append register_def map_get_map_set split: option.splits)
qed

lemma registerAll_foldl: "registerAll tools ths = foldl register tools ths"
  by (induction ths arbitrary: tools) auto

lemma length_getTools: "length (getTools tools) = length tools"
  by (simp add: getTools_def map_values_def)

text \<open>
  C3. Whatever sequence of requests has run against a new registry, \<open>getTools\<close> lists
  every registered name exactly once; registering a name that is already listed leaves the
  number of descriptors as it was. \<open>register\<close> stores the new entry under its name and
  leaves the entries of other names alone, so the latest registration of a name is the one
  found. \<open>registerAll\<close> is \<open>register\<close> applied from left to right: for each name the last
  entry of the list that carries it is found afterwards.
\<close>

theorem registry_names_unique:
  "distinct (map name (getTools (snd (run new_registry rqs))))
   \<and> set (map name (getTools (snd (run new_registry rqs)))) = set (concat (map registered_names rqs))
   \<and> (\<forall>nm \<in> set (concat (map registered_names rqs)).
         count_list (map name (getTools (snd (run new_registry rqs)))) nm = 1)
   \<and> (name (tool th) \<in> set (concat (map registered_names rqs)) \<longrightarrow>
         length (getTools (snd (run new_registry (rqs @ [Register th]))))
           = length (getTools (snd (run new_registry rqs))))
   \<and> map_get (register tools th) (name (tool th)) = Some th
   \<and> (\<forall>nm. nm \<noteq> name (tool th) \<longrightarrow> map_get (register tools th) nm = map_get tools nm)
   \<and> registerAll tools ths = foldl register tools ths
   \<and> map_get (registerAll tools ths) nm =
         (case find (\<lambda>h. name (tool h) = nm) (rev ths) of
            Some h \<Rightarrow> Some h
          | None \<Rightarrow> map_get tools nm)"
proof -
  let ?names = "map name (getTools (snd (run new_registry rqs)))"
  let ?registered = "concat (map registered_names rqs)"
  have names: "?names = first_occurrences [] ?registered"
    by (rule names_after_run)
  have d: "distinct ?names"
    by (simp only: names distinct_first_occurrences)
  have s: "set ?names = set ?registered"
    by (simp only: names set_first_occurrences) simp
  have c: "\<forall>nm \<in> set ?registered. count_list ?names nm = 1"
    using d s by (simp add: count_list_distinct)
  have l: "name (tool th) \<in> set ?registered \<longrightarrow>
        length (getTools (snd (run new_registry (rqs @ [Register th]))))
          = length (getTools (snd (run new_registry rqs)))"
  proof
    assume "name (tool th) \<in> set ?registered"
    then have "name (tool th) \<in> set (map_keys (snd (run new_registry rqs)))"
      using s names_getTools [OF keyed_by_name_run [OF keyed_by_name_new], of rqs] by simp
    then show "length (getTools (snd (run new_registry (rqs @ [Register th]))))
          = length (getTools (snd (run new_registry rqs)))"
      by (simp add: snd_run_append length_getTools register_def length_map_set)
  qed
  have r: "map_get (register tools th) (name (tool th)) = Some th"
    by (simp add: register_def map_get_map_set)
  have o: "\<forall>nm. nm \<noteq> name (tool th) \<longrightarrow> map_get (register tools th) nm = map_get tools nm"
    by (simp add: register_def map_get_map_set)
  show ?thesis
    by (intro conjI)
      (fact d, fact s, fact c, fact l, fact r, fact o, fact registerAll_foldl,
        fact find_last_registered)
qed

lemma registered_twice:
  "snd (run new_registry
          [RegisterAll TOOLS, Register \<lparr>tool = textStats_tool, handler = formatDateTime_handler\<rparr>])
     = [(js ''formatDateTime'', \<lparr>tool = formatDateTime_tool, handler = formatDateTime_handler\<rparr>),
        (js ''textStats'', \<lparr>tool = textStats_tool, handler = formatDateTime_handler\<rparr>)]"
  by (simp add: TOOLS_def new_registry_def register_def tool_names tool_names_differ)

theorem registry_names_unique_witness:
  "distinct (map name (getTools (snd (run new_registry
       [RegisterAll TOOLS, Register \<lparr>tool = textStats_tool, handler = formatDateTime_handler\<rparr>]))))
   \<and> js ''textStats'' \<in> set (concat (map registered_names
       [RegisterAll TOOLS, Register \<lparr>tool = textStats_tool, handler = formatDateTime_handler\<rparr>]))
   \<and> count_list (map name (getTools (snd (run new_registry
       [RegisterAll TOOLS, Register \<lparr>tool = textStats_tool, handler = formatDateTime_handler\<rparr>]))))
         (js ''textStats'') = 1
   \<and> length (getTools (snd (run new_registry
       ([RegisterAll TOOLS, Register \<lparr>tool = textStats_tool, handler = formatDateTime_handler\<rparr>]
        @ [Register \<lparr>tool = textStats_tool, handler = textStats_handler\<rparr>])))) = 2
   \<and> map_get (register toolRegistry \<lparr>tool = textStats_tool, handler = textStats_handler\<rparr>)
         (js ''formatDateTime'')
       = Some \<lparr>tool = formatDateTime_tool, handler = formatDateTime_handler\<rparr>
   \<and> map_get (registerAll toolRegistry
         [\<lparr>tool = textStats_tool, handler = formatDateTime_handler\<rparr>,
          \<lparr>tool = textStats_tool, handler = textStats_handler\<rparr>]) (js ''textStats'')
       = Some \<lparr>tool = textStats_tool, handler = textStats_handler\<rparr>"
proof -
  let ?again = "\<lparr>tool = textStats_tool, handler = formatDateTime_handler\<rparr>"
  let ?stats = "\<lparr>tool = textStats_tool, handler = textStats_handler\<rparr>"
  let ?rqs = "[RegisterAll TOOLS, Register ?again]"
  note unique = registry_names_unique [of ?rqs ?stats toolRegistry "[?again, ?stats]" "js ''textStats''"]
  have listed: "js ''textStats'' \<in> set (concat (map registered_names ?rqs))"
    by (simp add: TOOLS_def tool_names)
  have again: "name (tool ?stats) \<in> set (concat (map registered_names ?rqs))"
    by (simp add: TOOLS_def tool_names)
  have other: "js ''formatDateTime'' \<noteq> name (tool ?stats)"
    by (simp add: tool_names tool_names_differ)
  from unique have d: "distinct (map name (getTools (snd (run new_registry ?rqs))))"
    by (elim conjE)
  from unique listed have c:
    "count_list (map name (getTools (snd (run new_registry ?rqs)))) (js ''textStats'') = 1"
    by blast
  from unique again have "length (getTools (snd (run new_registry (?rqs @ [Register ?stats]))))
      = length (getTools (snd (run new_registry ?rqs)))"
    by blast
  then have l: "length (getTools (snd (run new_registry (?rqs @ [Register ?stats])))) = 2"
    by (simp only: registered_twice length_getTools) simp
  from unique other have "map_get (register toolRegistry ?stats) (js ''formatDateTime'')
      = map_get toolRegistry (js ''formatDateTime'')"
    by blast
  then have o: "map_get (register toolRegistry ?stats) (js ''formatDateTime'')
      = Some \<lparr>tool = formatDateTime_tool, handler = formatDateTime_handler\<rparr>"
    by (simp add: toolRegistry_entries)
  from unique have "map_get (registerAll toolRegistry [?again, ?stats]) (js ''textStats'')
      = (case find (\<lambda>h. name (tool h) = js ''textStats'') (rev [?again, ?stats]) of
           Some h \<Rightarrow> Some h
         | None \<Rightarrow> map_get toolRegistry (js ''textStats''))"
    by (elim conjE)
  then have w: "map_get (registerAll toolRegistry [?again, ?stats]) (js ''textStats'') = Some ?stats"
    by (simp add: tool_names)
  show ?thesis
    by (intro conjI) (fact d, fact listed, fact c, fact l, fact o, fact w)
qed

text \<open>
  C4. \<open>getTools\<close> leaves the registry as it is and, with any number of other reads but no
  registration in between, a second \<open>getTools\<close> returns the same descriptors in the same
  order. The names come in the order in which they were first registered, and registering
  a listed name again does not move it.
\<close>

theorem getTools_idempotent_in_registration_order:
  "invoke tools GetTools = (Tools (getTools tools), tools)
   \<and> (list_all (\<lambda>rq. \<not> is_registration rq) rqs \<longrightarrow>
         run tools (GetTools # rqs @ [GetTools])
           = (Tools (getTools tools) # fst (run tools rqs) @ [Tools (getTools tools)], tools))
   \<and> map name (getTools (snd (run new_registry rqs')))
         = first_occurrences [] (concat (map registered_names rqs'))
   \<and> (name (tool th) \<in> set (concat (map registered_names rqs')) \<longrightarrow>
         map name (getTools (snd (run new_registry (rqs' @ [Register th]))))
           = map name (getTools (snd (run new_registry rqs'))))"
proof -
  have i: "list_all (\<lambda>rq. \<not> is_registration rq) rqs \<longrightarrow>
         run tools (GetTools # rqs @ [GetTools])
           = (Tools (getTools tools) # fst (run tools rqs) @ [Tools (getTools tools)], tools)"
  proof
    assume ro: "list_all (\<lambda>rq. \<not> is_registration rq) rqs"
    have unchanged: "snd (run tools rqs) = tools"
      by (rule run_reads_only [OF ro])
    have "fst (run tools (GetTools # rqs @ [GetTools]))
            = Tools (getTools tools) # fst (run tools rqs) @ [Tools (getTools tools)]"
      by (simp add: fst_run_Cons fst_run_append unchanged del: run.simps) simp
    moreover have "snd (run tools (GetTools # rqs @ [GetTools])) = tools"
      by (simp add: snd_run_Cons snd_run_append unchanged del: run.simps) simp
    ultimately show "run tools (GetTools # rqs @ [GetTools])
           = (Tools (getTools tools) # fst (run tools rqs) @ [Tools (getTools tools)], tools)"
      by (simp add: prod_eq_iff)
  qed
  have k: "name (tool th) \<in> set (concat (map registered_names rqs')) \<longrightarrow>
         map name (getTools (snd (run new_registry (rqs' @ [Register th]))))
           = map name (getTools (snd (run new_registry rqs')))"
  proof
    assume "name (tool th) \<in> set (concat (map registered_names rqs'))"
    then have "name (tool th) \<in> set (first_occurrences [] (concat (map registered_names rqs')))"
      by (simp add: set_first_occurrences)
    then show "map name (getTools (snd (run new_registry (rqs' @ [Register th]))))
           = map name (getTools (snd (run new_registry rqs')))"
      by (simp add: names_after_run first_occurrences_append)
  qed
  have g: "invoke tools GetTools = (Tools (getTools tools), tools)"
    by simp
  show ?thesis
    by (intro conjI) (fact g, fact i, fact names_after_run, fact k)
qed

theorem getTools_idempotent_in_registration_order_witness:
  "list_all (\<lambda>rq. \<not> is_registration rq)
     [HandleToolCall example_world (js ''__nonexistent__'') Map.empty, GetTools]
   \<and> run toolRegistry
         (GetTools # [HandleToolCall example_world (js ''__nonexistent__'') Map.empty, GetTools]
          @ [GetTools])
       = (Tools (getTools toolRegistry)
          # fst (run toolRegistry
                 [HandleToolCall example_world (js ''__nonexistent__'') Map.empty, GetTools])
          @ [Tools (getTools toolRegistry)], toolRegistry)
   \<and> map name (getTools (snd (run new_registry [RegisterAll (rev TOOLS), RegisterAll TOOLS])))
       = [js ''textStats'', js ''formatDateTime'']
   \<and> name (tool \<lparr>tool = textStats_tool, handler = formatDateTime_handler\<rparr>)
       \<in> set (concat (map registered_names [RegisterAll (rev TOOLS), RegisterAll TOOLS]))
   \<and> map name (getTools (snd (run new_registry
         ([RegisterAll (rev TOOLS), RegisterAll TOOLS]
          @ [Register \<lparr>tool = textStats_tool, handler = formatDateTime_handler\<rparr>]))))
       = [js ''textStats'', js ''formatDateTime'']"
proof -
  let ?again = "\<lparr>tool = textStats_tool, handler = formatDateTime_handler\<rparr>"
  let ?reads = "[HandleToolCall example_world (js ''__nonexistent__'') Map.empty, GetTools]"
  let ?rqs = "[RegisterAll (rev TOOLS), RegisterAll TOOLS]"
  note ordered = getTools_idempotent_in_registration_order [of toolRegistry ?reads ?rqs ?again]
  have reads: "list_all (\<lambda>rq. \<not> is_registration rq) ?reads"
    by (simp add: is_registration_def)
  have listed: "name (tool ?again) \<in> set (concat (map registered_names ?rqs))"
    by (simp add: TOOLS_def tool_names)
  from ordered reads have twice: "run toolRegistry (GetTools # ?reads @ [GetTools])
       = (Tools (getTools toolRegistry) # fst (run toolRegistry ?reads)
          @ [Tools (getTools toolRegistry)], toolRegistry)"
    by blast
  from ordered have "map name (getTools (snd (run new_registry ?rqs)))
       = first_occurrences [] (concat (map registered_names ?rqs))"
    by (elim conjE)
  then have names: "map name (getTools (snd (run new_registry ?rqs)))
       = [js ''textStats'', js ''formatDateTime'']"
    by (simp add: TOOLS_def tool_names tool_names_differ)
  from ordered listed have "map name (getTools (snd (run new_registry (?rqs @ [Register ?again]))))
       = map name (getTools (snd (run new_registry ?rqs)))"
    by blast
  then have still: "map name (getTools (snd (run new_registry (?rqs @ [Register ?again]))))
       = [js ''textStats'', js ''formatDateTime'']"
    by (simp only: names)
  show ?thesis
    by (intro conjI) (fact reads, fact twice, fact names, fact listed, fact still)
qed

section \<open>Formatting a date\<close>

lemma formatDateTime_registered:
  "map_get toolRegistry (js ''formatDateTime'')
     = Some \<lparr>tool = formatDateTime_tool, handler = formatDateTime_handler\<rparr>"
  by (simp add: toolRegistry_entries)

lemma call_formatDateTime:
  "handleToolCall toolRegistry w (js ''formatDateTime'') as
     = Resolved (format_timestamp w (as (js ''format'')) (timestamp_or_now w as))"
  by (simp add: handleToolCall_def formatDateTime_registered formatDateTime_handler_def)

lemma format_valid_timestamp:
  "\<bar>t\<bar> \<le> 8640000000000000 \<Longrightarrow>
     format_timestamp w (Some (JString f)) (JNumber t)
       = \<lparr>content = [TextContent (replace_tokens (formatMap w t) f)], isError = Some False\<rparr>"
  by (simp add: format_timestamp_def createTextResponse_def)

lemma DayFromYear_cycles:
  assumes "0 \<le> b" "b \<le> 3" "0 \<le> c" "c \<le> 24" "0 \<le> e" "e \<le> 3"
  shows "DayFromYear (1601 + 400 * a + 100 * b + 4 * c + e)
           = 146097 * a + 36524 * b + 1461 * c + 365 * e - 134774"
proof -
  let ?y = "1601 + 400 * a + 100 * b + 4 * c + e"
  have q4: "(?y - 1969) div 4 = 100 * a + 25 * b + c - 92"
    using assms by arith
  have q100: "(?y - 1901) div 100 = 4 * a + b - 3"
    using assms by arith
  have q400: "(?y - 1601) div 400 = a"
    using assms by arith
  show ?thesis
    unfolding DayFromYear_def q4 q100 q400 by arith
qed

text \<open>
  \<open>YearFromDay\<close> is the year of the language standard: the year whose first day is not
  after the given day, while the first day of the next year is.
\<close>

lemma YearFromDay_bounds:
  "DayFromYear (YearFromDay d) \<le> d \<and> d < DayFromYear (YearFromDay d + 1)"
proof -
  define n where "n = d + 134774"
  define a where "a = n div 146097"
  define r where "r = n mod 146097"
  define b where "b = min 3 (r div 36524)"
  define r' where "r' = r - b * 36524"
  define c where "c = r' div 1461"
  define r'' where "r'' = r' mod 1461"
  define e where "e = min 3 (r'' div 365)"
  define rest where "rest = r'' - 365 * e"
  have year: "YearFromDay d = 1601 + 400 * a + 100 * b + 4 * c + e"
    unfolding YearFromDay_def Let_def e_def r''_def c_def r'_def b_def r_def a_def n_def
    by (rule refl)
  have n: "n = 146097 * a + r" and r: "0 \<le> r" "r < 146097"
    by (simp_all add: a_def r_def)
  have b: "0 \<le> b" "b \<le> 3"
    using r unfolding b_def by arith+
  have r': "0 \<le> r'" "r' \<le> 36524" "b < 3 \<longrightarrow> r' < 36524"
    using r unfolding r'_def b_def by arith+
  have split: "r' = 1461 * c + r''" and r'': "0 \<le> r''" "r'' < 1461"
    by (simp_all add: c_def r''_def)
  have c: "0 \<le> c" "c \<le> 24"
    using r' split r'' by arith+
  have e: "0 \<le> e" "e \<le> 3"
    using r'' unfolding e_def by arith+
  have rest: "0 \<le> rest" "rest \<le> 365" "e < 3 \<longrightarrow> rest < 365"
    using r'' unfolding rest_def e_def by arith+
  have century: "e = 3 \<and> c = 24 \<and> b < 3 \<longrightarrow> rest < 365"
    using r' split r'' unfolding rest_def by arith
  have d: "d = 146097 * a + 36524 * b + 1461 * c + 365 * e - 134774 + rest"
    using n split unfolding n_def r'_def rest_def by arith
  have first: "DayFromYear (YearFromDay d)
      = 146097 * a + 36524 * b + 1461 * c + 365 * e - 134774"
    unfolding year by (rule DayFromYear_cycles [OF b c e])
  have lower: "DayFromYear (YearFromDay d) \<le> d"
    using first d rest(1) by arith
  consider (within) "e < 3"
    | (fourth) "e = 3" "c < 24"
    | (hundredth) "e = 3" "c = 24" "b < 3"
    | (last) "e = 3" "c = 24" "b = 3"
    using e c b by arith
  then have upper: "d < DayFromYear (YearFromDay d + 1)"
  proof cases
    case within
    have "YearFromDay d + 1 = 1601 + 400 * a + 100 * b + 4 * c + (e + 1)"
      using year by simp
    moreover have "DayFromYear (1601 + 400 * a + 100 * b + 4 * c + (e + 1))
        = 146097 * a + 36524 * b + 1461 * c + 365 * (e + 1) - 134774"
      using within e by (intro DayFromYear_cycles b c) simp_all
    ultimately show ?thesis
      using d rest(3) within by simp
  next
    case fourth
    have "YearFromDay d + 1 = 1601 + 400 * a + 100 * b + 4 * (c + 1) + 0"
      using year fourth by simp
    moreover have "DayFromYear (1601 + 400 * a + 100 * b + 4 * (c + 1) + 0)
        = 146097 * a + 36524 * b + 1461 * (c + 1) + 365 * 0 - 134774"
      using fourth c by (intro DayFromYear_cycles b) simp_all
    ultimately show ?thesis
      using d rest(2) fourth by simp
  next
    case hundredth
    have "YearFromDay d + 1 = 1601 + 400 * a + 100 * (b + 1) + 4 * 0 + 0"
      using year hundredth by simp
    moreover have "DayFromYear (1601 + 400 * a + 100 * (b + 1) + 4 * 0 + 0)
        = 146097 * a + 36524 * (b + 1) + 1461 * 0 + 365 * 0 - 134774"
      using hundredth b by (intro DayFromYear_cycles) simp_all
    ultimately show ?thesis
      using d century hundredth by simp
  next
    case last
    have "YearFromDay d + 1 = 1601 + 400 * (a + 1) + 100 * 0 + 4 * 0 + 0"
      using year last by simp
    moreover have "DayFromYear (1601 + 400 * (a + 1) + 100 * 0 + 4 * 0 + 0)
        = 146097 * (a + 1) + 36524 * 0 + 1461 * 0 + 365 * 0 - 134774"
      by (intro DayFromYear_cycles) simp_all
    ultimately show ?thesis
      using d rest(2) last by simp
  qed
  show ?thesis
    using lower upper by simp
qed

lemma day_of_2024_01_05:
  assumes "1704412800000 \<le> lt" and "lt < 1704499200000"
  shows "Day lt = 19727"
  using assms unfolding Day_def msPerDay_def by arith

lemma date_of_2024_01_05:
  assumes "Day lt = 19727"
  shows "YearFromTime lt = 2024 \<and> MonthFromTime lt = 0 \<and> DateFromTime lt = 5"
proof -
  have y: "YearFromTime lt = 2024"
    by (simp add: YearFromTime_def assms YearFromDay_def)
  have d: "DayWithinYear lt = 4"
    by (simp add: DayWithinYear_def y assms DayFromYear_def)
  have m: "MonthFromTime lt = 0"
    by (simp add: MonthFromTime_def d)
  have "DateFromTime lt = 5"
    by (simp add: DateFromTime_def d m)
  with y m show ?thesis by simp
qed

lemma tokens_2024_01_05:
  "replace_tokens
     [(js ''YYYY'', js ''2024''), (js ''MM'', js ''01''), (js ''DD'', js ''05''),
      (js ''HH'', hh), (js ''mm'', mi), (js ''ss'', ss)] (js ''YYYY-MM-DD'') = js ''2024-01-05''"
  by (simp add: js_def)

lemma number_strings:
  "number_string 2024 = js ''2024''"
  "padStart 2 0x30 (number_string (0 + 1)) = js ''01''"
  "padStart 2 0x30 (number_string 5) = js ''05''"
  by (simp_all add: number_string_def padStart_def js_def)

lemma formatted_2024_01_05:
  assumes "1704412800000 \<le> LocalTime w t" and "LocalTime w t < 1704499200000"
  shows "replace_tokens (formatMap w t) (js ''YYYY-MM-DD'') = js ''2024-01-05''"
proof -
  have fields: "YearFromTime (LocalTime w t) = 2024 \<and> MonthFromTime (LocalTime w t) = 0
      \<and> DateFromTime (LocalTime w t) = 5"
    by (rule date_of_2024_01_05 [OF day_of_2024_01_05 [OF assms]])
  show ?thesis
    unfolding formatMap_def Let_def
    by (simp only: fields number_strings tokens_2024_01_05)
qed


lemma example_world_fields:
  "date_now example_world = 1704412800000"
  "local_tza example_world = (\<lambda>t. 0)"
  by (simp_all add: example_world_def)

lemma format_is_not_timestamp: "js ''format'' \<noteq> js ''timestamp''"
  by (simp add: js_def)


text \<open>
  C9. When the argument \<open>timestamp\<close> is the number 0, \<open>formatDateTime\<close> formats the time of
  the clock, \<open>Date.now()\<close>, and not the epoch: \<open>0 || Date.now()\<close> is \<open>Date.now()\<close>. The call
  returns what it returns when \<open>timestamp\<close> is absent.
\<close>

theorem formatDateTime_zero_timestamp_is_now:
  assumes zero: "as (js ''timestamp'') = Some (JNumber 0)"
    and format: "as (js ''format'') = Some (JString f)"
    and clock: "\<bar>date_now w\<bar> \<le> 8640000000000000"
  shows "handleToolCall toolRegistry w (js ''formatDateTime'') as
           = Resolved \<lparr>content = [TextContent (replace_tokens (formatMap w (date_now w)) f)],
                        isError = Some False\<rparr>
         \<and> handleToolCall toolRegistry w (js ''formatDateTime'') as
           = handleToolCall toolRegistry w (js ''formatDateTime'') (as(js ''timestamp'' := None))"
proof -
  have now: "timestamp_or_now w as = JNumber (date_now w)"
    by (simp add: timestamp_or_now_def zero)
  have absent: "timestamp_or_now w (as(js ''timestamp'' := None)) = JNumber (date_now w)"
    by (simp add: timestamp_or_now_def)
  have first: "handleToolCall toolRegistry w (js ''formatDateTime'') as
           = Resolved \<lparr>content = [TextContent (replace_tokens (formatMap w (date_now w)) f)],
                        isError = Some False\<rparr>"
    by (simp only: call_formatDateTime now format format_valid_timestamp [OF clock])
  have second: "handleToolCall toolRegistry w (js ''formatDateTime'') as
           = handleToolCall toolRegistry w (js ''formatDateTime'') (as(js ''timestamp'' := None))"
    using format_is_not_timestamp by (simp add: call_formatDateTime now absent)
  show ?thesis
    by (intro conjI) (fact first, fact second)
qed

lemma epoch_fields:
  "YearFromTime 0 = 1970 \<and> MonthFromTime 0 = 0 \<and> DateFromTime 0 = 1"
proof -
  have y: "YearFromTime 0 = 1970"
    by (simp add: YearFromTime_def Day_def YearFromDay_def)
  have d: "DayWithinYear 0 = 0"
    by (simp add: DayWithinYear_def y Day_def DayFromYear_def)
  have m: "MonthFromTime 0 = 0"
    by (simp add: MonthFromTime_def d)
  have "DateFromTime 0 = 1"
    by (simp add: DateFromTime_def d m)
  with y m show ?thesis by simp
qed

lemma epoch_formatted:
  "replace_tokens (formatMap example_world 0) (js ''YYYY-MM-DD'') = js ''1970-01-01''"
proof -
  have lt: "LocalTime example_world 0 = 0"
    by (simp add: LocalTime_def example_world_fields)
  show ?thesis
    unfolding formatMap_def Let_def lt
    by (simp add: epoch_fields number_string_def padStart_def js_def)
qed

theorem formatDateTime_zero_timestamp_is_now_witness:
  "\<bar>date_now example_world\<bar> \<le> 8640000000000000
   \<and> handleToolCall toolRegistry example_world (js ''formatDateTime'')
       [js ''format'' \<mapsto> JString (js ''YYYY-MM-DD''), js ''timestamp'' \<mapsto> JNumber 0]
     = Resolved \<lparr>content = [TextContent (js ''2024-01-05'')], isError = Some False\<rparr>
   \<and> handleToolCall toolRegistry example_world (js ''formatDateTime'')
       [js ''format'' \<mapsto> JString (js ''YYYY-MM-DD''), js ''timestamp'' \<mapsto> JNumber 0]
     = handleToolCall toolRegistry example_world (js ''formatDateTime'')
         [js ''format'' \<mapsto> JString (js ''YYYY-MM-DD'')]
   \<and> replace_tokens (formatMap example_world 0) (js ''YYYY-MM-DD'') = js ''1970-01-01''"
proof -
  let ?as = "[js ''format'' \<mapsto> JString (js ''YYYY-MM-DD''), js ''timestamp'' \<mapsto> JNumber 0]"
  have zero: "?as (js ''timestamp'') = Some (JNumber 0)"
    by simp
  have format: "?as (js ''format'') = Some (JString (js ''YYYY-MM-DD''))"
    using format_is_not_timestamp by simp
  have clock: "\<bar>date_now example_world\<bar> \<le> 8640000000000000"
    by (simp add: example_world_fields)
  have absent: "?as(js ''timestamp'' := None) = [js ''format'' \<mapsto> JString (js ''YYYY-MM-DD'')]"
    using format_is_not_timestamp by (intro ext) simp
  have now: "replace_tokens (formatMap example_world (date_now example_world)) (js ''YYYY-MM-DD'')
      = js ''2024-01-05''"
    by (rule formatted_2024_01_05) (simp_all add: LocalTime_def example_world_fields)
  note zero_is_now =
    formatDateTime_zero_timestamp_is_now [of ?as "js ''YYYY-MM-DD''" example_world, OF zero format clock]
  from zero_is_now [THEN conjunct1]
  have first: "handleToolCall toolRegistry example_world (js ''formatDateTime'') ?as
      = Resolved \<lparr>content = [TextContent (js ''2024-01-05'')], isError = Some False\<rparr>"
    by (simp only: now)
  from zero_is_now [THEN conjunct2]
  have second: "handleToolCall toolRegistry example_world (js ''formatDateTime'') ?as
      = handleToolCall toolRegistry example_world (js ''formatDateTime'')
          [js ''format'' \<mapsto> JString (js ''YYYY-MM-DD'')]"
    by (simp only: absent)
  show ?thesis
    by (intro conjI) (fact clock, fact first, fact second, fact epoch_formatted)
qed

section \<open>Statistics of a text\<close>

lemma a_a_b: "js ''a a b'' = [0x61, 0x20, 0x61, 0x20, 0x62]"
  by (simp add: js_def)

lemma charCount_a_a_b: "charCount (js ''a a b'') = 5"
  by (simp add: charCount_def js_def)

lemma wordCount_a_a_b: "wordCount (js ''a a b'') = 3"
  by (simp add: wordCount_def trim_def a_a_b is_space_def)

lemma lineCount_a_a_b: "lineCount (js ''a a b'') = 1"
  by (simp add: lineCount_def a_a_b)

lemma topChars_a_a_b:
  "topChars (js ''a a b'') = [0x22] @ js ''a'' @ [0x22] @ js '': 2, '' @ [0x22, 0x7A7A, 0x683C, 0x22]
      @ js '': 2, '' @ [0x22] @ js ''b'' @ [0x22] @ js '': 1''"
  by (simp add: topChars_def a_a_b object_entries_def is_digit_key_def char_label_def
      number_string_def js_def)

lemma length_split_lines: "1 \<le> length (split_lines cur s)"
  by (induction cur s rule: split_lines.induct) (auto split: list.splits)

lemma lineCount_positive: "1 \<le> lineCount s"
  using length_split_lines [of "[]"] by (simp add: lineCount_def)

lemma stats_of_empty: "charCount [] = 0 \<and> wordCount [] = 0 \<and> lineCount [] = 1 \<and> topChars [] = []"
  by (simp add: charCount_def wordCount_def lineCount_def topChars_def trim_def object_entries_def)

lemma textStats_registered:
  "map_get toolRegistry (js ''textStats'') = Some \<lparr>tool = textStats_tool, handler = textStats_handler\<rparr>"
  by (simp add: toolRegistry_entries tool_names_differ)

lemma call_textStats_string:
  "handleToolCall toolRegistry w (js ''textStats'') (as(js ''text'' \<mapsto> JString s))
     = Resolved \<lparr>content = [TextContent (json_stringify w (textStats_result s))],
                  isError = Some False\<rparr>"
  by (simp add: handleToolCall_def textStats_registered textStats_handler_def createTextResponse_def)

text \<open>
  C8. A call of \<open>textStats\<close> with the text \<open>a a b\<close> returns a fulfilled promise whose result
  is not an error and has one text block: the serialisation of the object that reports 5
  characters, 3 words, 1 line and the common characters \<open>"a": 2, "space": 2, "b": 1\<close>, the
  space under its Chinese name.
\<close>

theorem textStats_a_a_b:
  "handleToolCall toolRegistry w (js ''textStats'') (as(js ''text'' \<mapsto> JString (js ''a a b'')))
     = Resolved
         \<lparr>content =
            [TextContent
               (json_stringify w
                  (JObject
                     [(key_characters, JNumber 5),
                      (key_words, JNumber 3),
                      (key_lines, JNumber 1),
                      (key_common, JString
                         ([0x22] @ js ''a'' @ [0x22] @ js '': 2, '' @ [0x22, 0x7A7A, 0x683C, 0x22]
                          @ js '': 2, '' @ [0x22] @ js ''b'' @ [0x22] @ js '': 1''))]))],
          isError = Some False\<rparr>"
  by (simp add: call_textStats_string textStats_result_def charCount_a_a_b wordCount_a_a_b
      lineCount_a_a_b topChars_a_a_b)

text \<open>
  C10. For every string, \<open>textStats\<close> returns a fulfilled promise whose result is not an
  error and has one text block, the serialisation of the object with the three counts and
  the common characters; the line count in it is at least 1. For the empty string the
  object reports 0 characters, 0 words and 1 line.
\<close>

theorem textStats_line_count_positive:
  "handleToolCall toolRegistry w (js ''textStats'') (as(js ''text'' \<mapsto> JString s))
     = Resolved
         \<lparr>content =
            [TextContent
               (json_stringify w
                  (JObject
                     [(key_characters, JNumber (int (charCount s))),
                      (key_words, JNumber (int (wordCount s))),
                      (key_lines, JNumber (int (lineCount s))),
                      (key_common, JString (topChars s))]))],
          isError = Some False\<rparr>
   \<and> 1 \<le> lineCount s
   \<and> handleToolCall toolRegistry w (js ''textStats'') (as(js ''text'' \<mapsto> JString []))
     = Resolved
         \<lparr>content =
            [TextContent
               (json_stringify w
                  (JObject
                     [(key_characters, JNumber 0),
                      (key_words, JNumber 0),
                      (key_lines, JNumber 1),
                      (key_common, JString [])]))],
          isError = Some False\<rparr>"
proof -
  have general: "handleToolCall toolRegistry w (js ''textStats'') (as(js ''text'' \<mapsto> JString s))
     = Resolved
         \<lparr>content =
            [TextContent
               (json_stringify w
                  (JObject
                     [(key_characters, JNumber (int (charCount s))),
                      (key_words, JNumber (int (wordCount s))),
                      (key_lines, JNumber (int (lineCount s))),
                      (key_common, JString (topChars s))]))],
          isError = Some False\<rparr>"
    by (simp only: call_textStats_string textStats_result_def)
  have empty: "handleToolCall toolRegistry w (js ''textStats'') (as(js ''text'' \<mapsto> JString []))
     = Resolved
         \<lparr>content =
            [TextContent
               (json_stringify w
                  (JObject
                     [(key_characters, JNumber 0),
                      (key_words, JNumber 0),
                      (key_lines, JNumber 1),
                      (key_common, JString [])]))],
          isError = Some False\<rparr>"
    by (simp add: call_textStats_string textStats_result_def stats_of_empty)
  show ?thesis
    by (intro conjI) (fact general, fact lineCount_positive, fact empty)
qed

section \<open>Failing handlers\<close>






section \<open>The shape of every result\<close>


















section \<open>Closing a connection\<close>



end
